theory Spec2Isabelle
  imports Main "HOL-Library.Word"
begin

section \<open>OVM ETH balance migration (op-chain-ops/ether/migrate.go)\<close>

subsection \<open>Basic types of the collaborating libraries\<close>

text \<open>
  \<^verbatim>\<open>common.Hash\<close> is a 32-byte array and \<^verbatim>\<open>common.Address\<close> a 20-byte array, both
  read big-endian. Go's \<^verbatim>\<open>int\<close> is taken as the 64-bit two's complement integer of the
  platforms the tool is built for; \<^verbatim>\<open>big.Int\<close> is an unbounded integer.
\<close>

type_synonym Hash = "256 word"
type_synonym Address = "160 word"
type_synonym byte = "8 word"
type_synonym goint = "64 word"

text \<open>\<^verbatim>\<open>Hash.Big()\<close>: the hash read as an unsigned big-endian number.\<close>

definition Hash_Big :: "Hash \<Rightarrow> int" where
  "Hash_Big h = uint h"

text \<open>
  \<^verbatim>\<open>common.BigToHash(b) = BytesToHash(b.Bytes())\<close>: \<^verbatim>\<open>Bytes\<close> is the big-endian absolute
  value and \<^verbatim>\<open>BytesToHash\<close> keeps the rightmost 32 bytes.
\<close>

definition BigToHash :: "int \<Rightarrow> Hash" where
  "BigToHash b = word_of_int \<bar>b\<bar>"

subsection \<open>Constants of migrate.go\<close>

definition checkJobs :: goint where
  "checkJobs = 64"

definition BalanceSlot :: int where
  "BalanceSlot = 1"

definition AllowanceSlot :: int where
  "AllowanceSlot = 2"

definition maxSlot :: Hash where
  "maxSlot = 0xffffffffffffffffffffffffffffffffffffffffffffffffffffffffffffffff"

subsection \<open>PartitionKeyspace\<close>

text \<open>
  A panic is the left summand, carrying the panic value. \<^verbatim>\<open>big.Int.Div\<close> panics on a
  zero divisor; the branch is written out although the two guards before it exclude it.
  The comparisons and \<^verbatim>\<open>count-1\<close>, \<^verbatim>\<open>i+1\<close> are Go \<^verbatim>\<open>int\<close> operations (wrapping),
  \<^verbatim>\<open>big.NewInt(int64(x))\<close> reads the result as a signed number.
\<close>

definition PartitionKeyspace :: "goint \<Rightarrow> goint \<Rightarrow> string + (Hash \<times> Hash)" where
  "PartitionKeyspace i count =
    (if sint i < 0 \<or> sint count < 0 then Inl ''i and count must be greater than 0''
     else if sint i > sint (count - 1) then Inl ''i must be less than count - 1''
     else if sint count = 0 then Inl ''division by zero''
     else
       let partSize = Hash_Big maxSlot div sint count;
           start = BigToHash (sint i * partSize);
           end' = (if sint i < sint (count - 1)
                   then BigToHash (sint (i + 1) * partSize)
                   else maxSlot)
       in Inr (start, end'))"

text \<open>The local \<^verbatim>\<open>partSize\<close> of \<^verbatim>\<open>PartitionKeyspace\<close>, named for the proofs.\<close>

definition partSize :: "goint \<Rightarrow> int" where
  "partSize count = Hash_Big maxSlot div sint count"

subsection \<open>Collaborators: state database, storage trie, logging\<close>

text \<open>
  The go-ethereum \<^verbatim>\<open>state.StateDB\<close> is used through four accessors and the storage trie
  of an account. A trie is the list of its leaves \<^verbatim>\<open>(it.Key, it.Value)\<close> in the order the
  iterator yields them (ascending secure key) and the preimage lookup \<^verbatim>\<open>GetKey\<close>
  (\<open>None\<close> for \<^verbatim>\<open>nil\<close>). \<^verbatim>\<open>StorageTrie\<close> returns an error, \<^verbatim>\<open>nil\<close> or a trie.
\<close>

record Trie =
  leaves :: "(Hash \<times> byte list) list"
  GetKey :: "Hash \<Rightarrow> byte list option"

record StateDB =
  Balance :: "Address \<Rightarrow> int"
  State :: "Address \<Rightarrow> Hash \<Rightarrow> Hash"
  StorageTrie :: "Address \<Rightarrow> string + Trie option"

definition GetBalance :: "StateDB \<Rightarrow> Address \<Rightarrow> int" where
  "GetBalance db a = Balance db a"

definition SetBalance :: "StateDB \<Rightarrow> Address \<Rightarrow> int \<Rightarrow> StateDB" where
  "SetBalance db a v = db\<lparr>Balance := (Balance db)(a := v)\<rparr>"

definition GetState :: "StateDB \<Rightarrow> Address \<Rightarrow> Hash \<Rightarrow> Hash" where
  "GetState db a k = State db a k"

definition SetState :: "StateDB \<Rightarrow> Address \<Rightarrow> Hash \<Rightarrow> Hash \<Rightarrow> StateDB" where
  "SetState db a k v = db\<lparr>State := (State db)(a := (State db a)(k := v))\<rparr>"

text \<open>
  \<^verbatim>\<open>DBFactory\<close>: a function without arguments returning a database handle or an error.
  It is taken to return the same snapshot at every call.
\<close>

type_synonym DBFactory = "string + StateDB"

text \<open>
  \<^verbatim>\<open>trie.NewIterator(st.NodeIterator(start))\<close>: the leaves whose key is not below
  \<^verbatim>\<open>start\<close>, in trie order.
\<close>

definition NodeIterator :: "Trie \<Rightarrow> Hash \<Rightarrow> (Hash \<times> byte list) list" where
  "NodeIterator st start = filter (\<lambda>it. start \<le> fst it) (leaves st)"

text \<open>
  \<^verbatim>\<open>common.BytesToHash\<close>: the bytes read big-endian, cropped from the left to 32 bytes.
\<close>

definition BytesToHash :: "byte list \<Rightarrow> Hash" where
  "BytesToHash b = word_of_nat (foldl (\<lambda>a x. a * 256 + unat x) 0 b)"

datatype level = LvlCrit | LvlError | LvlInfo

type_synonym logline = "level \<times> string"

text \<open>Decimal rendering of \<^verbatim>\<open>big.Int.String()\<close> and of \<^verbatim>\<open>%d\<close>.\<close>

fun dec_nat :: "nat \<Rightarrow> string" where
  "dec_nat n = (if n < 10 then [char_of (48 + n)]
                else dec_nat (n div 10) @ [char_of (48 + n mod 10)])"

definition big_String :: "int \<Rightarrow> string" where
  "big_String z = (if z < 0 then CHR ''-'' # dec_nat (nat (- z)) else dec_nat (nat z))"

text \<open>\<^verbatim>\<open>Hash.String()\<close>: \<^verbatim>\<open>0x\<close> and the 64 lower-case hexadecimal digits.\<close>

definition hex_digit :: "nat \<Rightarrow> char" where
  "hex_digit n = ''0123456789abcdef'' ! (n mod 16)"

definition Hash_String :: "Hash \<Rightarrow> string" where
  "Hash_String h = ''0x'' @ map (\<lambda>i. hex_digit (unat (drop_bit (4 * (63 - i)) h))) [0..<64]"

text \<open>
  What migrate.go takes from the rest of the repository and from libraries, as
  parameters: the two storage-key derivations and the total-supply accessors of the
  \<^verbatim>\<open>ether\<close> package, \<^verbatim>\<open>rlp.Split\<close> (the content of a value or an error),
  \<^verbatim>\<open>crossdomain.ParamsByChainID\<close> reduced to the field \<^verbatim>\<open>ExpectedSupplyDelta\<close> that is
  read, and \<^verbatim>\<open>Address.String()\<close>.
\<close>

record Env =
  CalcOVMETHStorageKey :: "Address \<Rightarrow> Hash"
  CalcAllowanceStorageKey :: "Address \<Rightarrow> Address \<Rightarrow> Hash"
  getOVMETHTotalSupply :: "StateDB \<Rightarrow> int"
  getOVMETHTotalSupplySlot :: Hash
  rlp_Split :: "byte list \<Rightarrow> string + byte list"
  ParamsByChainID :: "goint \<Rightarrow> int option"
  Address_String :: "Address \<Rightarrow> string"

record Allowance =
  From :: Address
  To :: Address

subsection \<open>Package variables\<close>

text \<open>
  \<^verbatim>\<open>predeploys.LegacyERC20ETHAddr\<close> is the address that migrate.go also names
  \<^verbatim>\<open>OVMETHAddress\<close>.
\<close>

definition OVMETHAddress :: Address where
  "OVMETHAddress = 0xDeadDeAddeAddEAddeadDEaDDEAdDeaDDeAD0000"

definition LegacyERC20ETHAddr :: Address where
  "LegacyERC20ETHAddr = OVMETHAddress"

definition ignoredSlots :: "Hash \<Rightarrow> bool" where
  "ignoredSlots key = (key = 2 \<or> key = 3 \<or> key = 4 \<or> key = 5 \<or> key = 6)"

definition sequencerEntrypointAddr :: Address where
  "sequencerEntrypointAddr = 0x4200000000000000000000000000000000000005"

record accountData =
  balance :: int
  legacySlot :: Hash
  address :: Address

subsection \<open>The expectation maps of doMigration\<close>

text \<open>
  The three loops that fill \<^verbatim>\<open>slotsAddrs\<close> and \<^verbatim>\<open>slotsInp\<close>: the addresses, the
  allowances, then the sequencer entrypoint. Later writes overwrite earlier ones.
\<close>

type_synonym slots = "(Hash \<rightharpoonup> Address) \<times> (Hash \<rightharpoonup> int)"

definition add_address :: "Env \<Rightarrow> slots \<Rightarrow> Address \<Rightarrow> slots" where
  "add_address env sl addr =
    (let sk = CalcOVMETHStorageKey env addr
     in ((fst sl)(sk \<mapsto> addr), (snd sl)(sk \<mapsto> BalanceSlot)))"

definition add_allowance :: "Env \<Rightarrow> slots \<Rightarrow> Allowance \<Rightarrow> slots" where
  "add_allowance env sl allowance =
    (let sk = CalcAllowanceStorageKey env (From allowance) (To allowance)
     in ((fst sl)(sk \<mapsto> From allowance), (snd sl)(sk \<mapsto> AllowanceSlot)))"

definition build_slots :: "Env \<Rightarrow> Address list \<Rightarrow> Allowance list \<Rightarrow> slots" where
  "build_slots env addresses allowances =
    add_address env
      (foldl (add_allowance env)
        (foldl (add_address env) (Map.empty, Map.empty) addresses) allowances)
      sequencerEntrypointAddr"

subsection \<open>The scan worker\<close>

text \<open>
  What one pass through the body of the worker's \<^verbatim>\<open>for it.Next()\<close> loop does, after
  the cancellation check: go on with the next leaf, send a candidate on \<^verbatim>\<open>outCh\<close> and
  go on, send an error on \<^verbatim>\<open>errCh\<close> and return, return because the leaf lies behind
  the partition, or leave the process through \<^verbatim>\<open>log.Crit\<close>.
\<close>

datatype action = Continue | Send accountData | Fail string | Stop | Fatal string

definition worker_body ::
  "Env \<Rightarrow> bool \<Rightarrow> slots \<Rightarrow> StateDB \<Rightarrow> Trie \<Rightarrow> Hash \<Rightarrow> Hash \<times> byte list
    \<Rightarrow> logline list \<times> action" where
  "worker_body env noCheck sl db st end' it =
    (let slotsAddrs = fst sl; slotsInp = snd sl; rawValue = snd it in
     if Hash_Big (fst it) > Hash_Big end' then ([], Stop)
     else if length rawValue = 0 then ([], Continue)
     else case GetKey st (fst it) of
       None \<Rightarrow> ([(LvlCrit, ''cannot get preimage for storage key'')],
                 Fatal ''cannot get preimage for storage key'')
     | Some rawKey \<Rightarrow>
       let key = BytesToHash rawKey in
       case rlp_Split env rawValue of
         Inl err \<Rightarrow> ([(LvlCrit, ''mal-formed data in state: %v'')],
                     Fatal ''mal-formed data in state: %v'')
       | Inr content \<Rightarrow>
         if ignoredSlots key then ([], Continue)
         else
           let ok = (slotsInp key \<noteq> None);
               slotType = (case slotsInp key of None \<Rightarrow> 0 | Some t \<Rightarrow> t) in
           if \<not> ok \<and> \<not> noCheck
           then ([], Fail (''unknown storage slot in state: '' @ Hash_String key))
           else
             let l1 = (if \<not> ok then [(LvlError, ''ignoring unknown storage slot in state'')]
                       else []) in
             case slotsAddrs key of
               None \<Rightarrow>
                 (l1 @ [(LvlCrit, ''could not find address in map - should never happen'')],
                  Fatal ''could not find address in map - should never happen'')
             | Some addr \<Rightarrow>
               let bal = GetBalance db addr;
                   l2 = l1 @ (if bal \<noteq> 0
                     then [(LvlError,
                       ''account has non-zero balance in state - should never happen'')]
                     else []) in
               if bal \<noteq> 0 \<and> \<not> noCheck
               then (l2, Fail (''account has non-zero balance in state - should never happen: ''
                                 @ Address_String env addr))
               else if slotType = BalanceSlot
               then (l2, Send \<lparr>balance = Hash_Big (BytesToHash content),
                                legacySlot = key, address = addr\<rparr>)
               else if slotType = AllowanceSlot then (l2, Continue)
               else if noCheck then (l2 @ [(LvlError, ''unknown slot type'')], Continue)
               else (l2 @ [(LvlCrit, ''unknown slot type %d, should never happen'')],
                     Fatal ''unknown slot type %d, should never happen''))"

text \<open>
  A worker goroutine: its database handle, trie and partition end, and where it stands:
  iterating (with the leaves the iterator has still to yield), blocked in the send of a
  candidate on the unbuffered \<^verbatim>\<open>outCh\<close>, or returned.
\<close>

datatype control =
  Iterating "(Hash \<times> byte list) list"
  | Sending accountData "(Hash \<times> byte list) list"
  | Done

record worker =
  w_db :: StateDB
  w_st :: Trie
  w_end :: Hash
  w_ctl :: control

text \<open>
  The head of the worker closure: the handle from the factory, the storage trie, the
  iterator from \<^verbatim>\<open>start\<close>. Each failure is a \<^verbatim>\<open>log.Crit\<close>.
\<close>

definition worker_open :: "DBFactory \<Rightarrow> Hash \<Rightarrow> Hash \<Rightarrow> string + worker" where
  "worker_open dbFactory start end' =
    (case dbFactory of
       Inl err \<Rightarrow> Inl ''cannot get database''
     | Inr db \<Rightarrow>
       (case StorageTrie db LegacyERC20ETHAddr of
          Inl err \<Rightarrow> Inl ''cannot get storage trie for LegacyERC20ETHAddr''
        | Inr None \<Rightarrow> Inl ''nil storage trie for LegacyERC20ETHAddr''
        | Inr (Some st) \<Rightarrow>
            Inr \<lparr>w_db = db, w_st = st, w_end = end',
                 w_ctl = Iterating (NodeIterator st start)\<rparr>))"

subsection \<open>The run of doMigration as a scheduled transition system\<close>

text \<open>
  The goroutines of \<^verbatim>\<open>doMigration\<close> share \<^verbatim>\<open>outCh\<close>, \<^verbatim>\<open>errCh\<close> (buffered, one place
  per worker), \<^verbatim>\<open>cancelCh\<close> and the variables the collector closure captures. The state
  of a run holds them; \<open>count'\<close> is the variable \<^verbatim>\<open>count\<close>. \<open>exited\<close> records a
  \<^verbatim>\<open>log.Crit\<close>, which ends the process. The progress logger is observational and left
  out.
\<close>

record migration =
  workers :: "worker list"
  errCh :: "string list"
  cancelled :: bool
  lastErr :: "string option"
  collecting :: bool
  seenAccounts :: "Address \<Rightarrow> bool"
  totalFound :: int
  count' :: goint
  mutableDB :: StateDB
  logs :: "logline list"
  exited :: "string option"

text \<open>The collector's \<^verbatim>\<open>case account := <-outCh\<close>.\<close>

definition collect :: "accountData \<Rightarrow> migration \<Rightarrow> migration" where
  "collect account m =
    (if seenAccounts m (address account)
     then m\<lparr>logs := logs m @ [(LvlInfo, ''skipping duplicate account during iteration'')]\<rparr>
     else m\<lparr>totalFound := totalFound m + balance account,
            mutableDB := SetState
              (SetBalance (mutableDB m) (address account) (balance account))
              LegacyERC20ETHAddr (legacySlot account) 0,
            count' := count' m + 1,
            seenAccounts := (seenAccounts m)(address account := True)\<rparr>)"

text \<open>The collector fed with a sequence of candidates, one receive after the other.\<close>

definition collector :: "accountData list \<Rightarrow> migration \<Rightarrow> migration" where
  "collector accounts m = foldl (\<lambda>m' account. collect account m') m accounts"

text \<open>
  The scheduler's choices. \<open>Work i\<close>: worker \<open>i\<close> runs to its next communication: one
  pass of its loop (cancellation check first), or, when it is blocked in a send, the
  rendezvous with the collector's receive on \<^verbatim>\<open>outCh\<close>. \<open>RecvErr\<close>: the collector's
  \<^verbatim>\<open>case err := <-errCh\<close> with \<^verbatim>\<open>cancelOnce\<close>. \<open>RecvCancel\<close>: the collector's
  \<^verbatim>\<open>case <-cancelCh\<close>, after which it returns. \<open>WaitDone\<close>: \<^verbatim>\<open>wg.Wait()\<close> returns in the
  main goroutine and \<^verbatim>\<open>cancelOnce\<close> closes \<^verbatim>\<open>cancelCh\<close>. A choice that is not enabled
  leaves the state as it is.
\<close>

datatype event = Work nat | RecvErr | RecvCancel | WaitDone

definition all_done :: "migration \<Rightarrow> bool" where
  "all_done m = list_all (\<lambda>w. w_ctl w = Done) (workers m)"

definition set_ctl :: "nat \<Rightarrow> control \<Rightarrow> migration \<Rightarrow> migration" where
  "set_ctl i c m = m\<lparr>workers := (workers m)[i := (workers m ! i)\<lparr>w_ctl := c\<rparr>]\<rparr>"

definition work :: "Env \<Rightarrow> bool \<Rightarrow> slots \<Rightarrow> nat \<Rightarrow> migration \<Rightarrow> migration" where
  "work env noCheck sl i m =
    (if i \<ge> length (workers m) then m
     else
       let w = workers m ! i in
       case w_ctl w of
         Done \<Rightarrow> m
       | Sending account rest \<Rightarrow>
           if collecting m then set_ctl i (Iterating rest) (collect account m) else m
       | Iterating [] \<Rightarrow> set_ctl i Done m
       | Iterating (it # rest) \<Rightarrow>
           if cancelled m then set_ctl i Done m
           else
             let (l, a) = worker_body env noCheck sl (w_db w) (w_st w) (w_end w) it;
                 m' = m\<lparr>logs := logs m @ l\<rparr> in
             case a of
               Continue \<Rightarrow> set_ctl i (Iterating rest) m'
             | Send account \<Rightarrow> set_ctl i (Sending account rest) m'
             | Fail err \<Rightarrow> set_ctl i Done (m'\<lparr>errCh := errCh m' @ [err]\<rparr>)
             | Stop \<Rightarrow> set_ctl i Done m'
             | Fatal msg \<Rightarrow> m'\<lparr>exited := Some msg\<rparr>)"

definition step :: "Env \<Rightarrow> bool \<Rightarrow> slots \<Rightarrow> migration \<Rightarrow> event \<Rightarrow> migration" where
  "step env noCheck sl m ev =
    (if exited m \<noteq> None then m
     else case ev of
       Work i \<Rightarrow> work env noCheck sl i m
     | RecvErr \<Rightarrow>
         (case errCh m of
            [] \<Rightarrow> m
          | err # errs \<Rightarrow>
              if \<not> collecting m then m
              else if cancelled m then m\<lparr>errCh := errs\<rparr>
              else m\<lparr>errCh := errs, lastErr := Some err, cancelled := True\<rparr>)
     | RecvCancel \<Rightarrow>
         if collecting m \<and> cancelled m then m\<lparr>collecting := False\<rparr> else m
     | WaitDone \<Rightarrow> if all_done m then m\<lparr>cancelled := True\<rparr> else m)"

text \<open>
  What a run ends in: \<^verbatim>\<open>doMigration\<close> returned (\<open>None\<close> is \<^verbatim>\<open>nil\<close>), a panic, the
  process left through \<^verbatim>\<open>log.Crit\<close>, or the schedule ended while the main goroutine
  still waits for the workers or for the collector.
\<close>

datatype outcome = Returned "string option" | Panicked string | Exited string | Waiting

text \<open>
  The launch loop \<^verbatim>\<open>for i := 0; i < checkJobs; i++\<close>: the partition of worker \<open>i\<close>
  and its opening.
\<close>

definition launch_worker :: "DBFactory \<Rightarrow> goint \<Rightarrow> outcome + worker" where
  "launch_worker dbFactory i =
    (case PartitionKeyspace i checkJobs of
       Inl p \<Rightarrow> Inl (Panicked p)
     | Inr (start, end') \<Rightarrow>
         (case worker_open dbFactory start end' of
            Inl msg \<Rightarrow> Inl (Exited msg)
          | Inr w \<Rightarrow> Inr w))"

fun launch :: "DBFactory \<Rightarrow> nat list \<Rightarrow> outcome + worker list" where
  "launch dbFactory [] = Inr []"
| "launch dbFactory (i # is) =
    (case launch_worker dbFactory (of_nat i) of
       Inl oc \<Rightarrow> Inl oc
     | Inr w \<Rightarrow> (case launch dbFactory is of Inl oc \<Rightarrow> Inl oc | Inr ws \<Rightarrow> Inr (w # ws)))"

definition start_migration :: "StateDB \<Rightarrow> worker list \<Rightarrow> migration" where
  "start_migration db ws =
    \<lparr>workers = ws, errCh = [], cancelled = False, lastErr = None, collecting = True,
     seenAccounts = (\<lambda>a. False), totalFound = 0, count' = 0, mutableDB = db,
     logs = [], exited = None\<rparr>"

text \<open>
  The concurrent part of \<^verbatim>\<open>doMigration\<close> under a schedule: the state in which the main
  goroutine finds the run, or the outcome of a failed launch.
\<close>

definition scan ::
  "Env \<Rightarrow> StateDB \<Rightarrow> DBFactory \<Rightarrow> Address list \<Rightarrow> Allowance list \<Rightarrow> bool \<Rightarrow> event list
    \<Rightarrow> outcome + migration" where
  "scan env db dbFactory addresses allowances noCheck sched =
    (case launch dbFactory [0..<unat checkJobs] of
       Inl oc \<Rightarrow> Inl oc
     | Inr ws \<Rightarrow>
         Inr (foldl (step env noCheck (build_slots env addresses allowances))
                (start_migration db ws) sched))"

text \<open>
  The main goroutine from \<^verbatim>\<open>wg.Wait()\<close> on: it gets past \<^verbatim>\<open>wg.Wait()\<close> and
  \<^verbatim>\<open><-collectorCloseCh\<close> once every worker and the collector have returned, then returns
  the retained error or verifies the supply and clears the total-supply slot.
\<close>

definition finish ::
  "Env \<Rightarrow> DBFactory \<Rightarrow> int \<Rightarrow> bool \<Rightarrow> migration \<Rightarrow> outcome \<times> StateDB \<times> logline list" where
  "finish env dbFactory expDiff noCheck m =
    (case exited m of
       Some msg \<Rightarrow> (Exited msg, mutableDB m, logs m)
     | None \<Rightarrow>
       if \<not> (all_done m \<and> \<not> collecting m) then (Waiting, mutableDB m, logs m)
       else case lastErr m of
         Some err \<Rightarrow> (Returned (Some err), mutableDB m, logs m)
       | None \<Rightarrow>
         let l1 = logs m @ [(LvlInfo, ''Iterated legacy balances'')] in
         case dbFactory of
           Inl err \<Rightarrow> (Exited ''cannot get database'', mutableDB m,
                       l1 @ [(LvlCrit, ''cannot get database'')])
         | Inr db \<Rightarrow>
           let totalSupply = getOVMETHTotalSupply env db;
               delta = totalSupply - totalFound m;
               l2 = l1 @ (if delta \<noteq> expDiff then [(LvlError, ''supply mismatch'')] else []) in
           if delta \<noteq> expDiff \<and> \<not> noCheck
           then (Returned (Some (''supply mismatch: '' @ big_String delta)), mutableDB m, l2)
           else (Returned None,
                 SetState (mutableDB m) LegacyERC20ETHAddr (getOVMETHTotalSupplySlot env) 0,
                 l2 @ [(LvlInfo, ''supply verified OK''), (LvlInfo, ''Set the totalSupply to 0'')]))"

definition doMigration ::
  "Env \<Rightarrow> StateDB \<Rightarrow> DBFactory \<Rightarrow> Address list \<Rightarrow> Allowance list \<Rightarrow> int \<Rightarrow> bool
    \<Rightarrow> event list \<Rightarrow> outcome \<times> StateDB \<times> logline list" where
  "doMigration env db dbFactory addresses allowances expDiff noCheck sched =
    (case scan env db dbFactory addresses allowances noCheck sched of
       Inl oc \<Rightarrow> (oc, db, [])
     | Inr m \<Rightarrow> finish env dbFactory expDiff noCheck m)"

subsection \<open>MigrateBalances\<close>

definition MigrateBalances ::
  "Env \<Rightarrow> StateDB \<Rightarrow> DBFactory \<Rightarrow> Address list \<Rightarrow> Allowance list \<Rightarrow> goint \<Rightarrow> bool
    \<Rightarrow> event list \<Rightarrow> outcome \<times> StateDB \<times> logline list" where
  "MigrateBalances env db dbFactory addresses allowances chainID noCheck sched =
    (case ParamsByChainID env chainID of
       None \<Rightarrow> (Returned (Some (''no chain params for '' @ big_String (sint chainID))), db, [])
     | Some ExpectedSupplyDelta \<Rightarrow>
         doMigration env db dbFactory addresses allowances ExpectedSupplyDelta noCheck sched)"

section \<open>Properties of the keyspace partitioner\<close>

lemma maxSlot_uint: "uint maxSlot = 2 ^ 256 - 1"
  by (simp add: maxSlot_def)

lemma maxSlot_top: "(k::Hash) \<le> maxSlot"
  using uint_lt2p [of k] by (simp add: word_le_def maxSlot_uint)

lemma goint_sint_lt: "sint (c::goint) < 9223372036854775808"
  using sint_lt [of c] by simp

lemma goint_sint_ge: "- 9223372036854775808 \<le> sint (c::goint)"
  using sint_ge [of c] by simp

lemma sint_dec: "0 \<le> sint (c::goint) \<Longrightarrow> sint (c - 1) = sint c - 1"
  using goint_sint_lt [of c]
  by (simp add: sint_word_ariths signed_take_bit_int_eq_self_iff) 

lemma sint_inc: "0 \<le> sint (i::goint) \<Longrightarrow> sint i < sint (c::goint) \<Longrightarrow> sint (i + 1) = sint i + 1"
  using goint_sint_lt [of c]
  by (simp add: sint_word_ariths signed_take_bit_int_eq_self_iff) 


lemma partSize_pos: "1 \<le> sint count \<Longrightarrow> 1 \<le> partSize count"
proof -
  assume a: "1 \<le> sint count"
  have "sint count \<le> 2 ^ 256 - 1" using goint_sint_lt [of count] by simp
  then have "0 < (2 ^ 256 - 1) div sint count"
    using a by (simp add: pos_imp_zdiv_pos_iff)
  then show ?thesis by (simp add: partSize_def Hash_Big_def maxSlot_uint)
qed

lemma partSize_mult_le:
  assumes "1 \<le> sint count" "0 \<le> x" "x \<le> sint count"
  shows "x * partSize count \<le> 2 ^ 256 - 1"
proof -
  have p: "0 \<le> partSize count" using partSize_pos [OF assms(1)] by simp
  have "x * partSize count \<le> sint count * partSize count"
    using assms p by (simp add: mult_right_mono)
  also have "\<dots> \<le> 2 ^ 256 - 1"
  proof -
    have dm: "(2 ^ 256 - 1 :: int) =
        sint count * ((2 ^ 256 - 1) div sint count) + (2 ^ 256 - 1) mod sint count"
      by simp
    have "0 \<le> (2 ^ 256 - 1 :: int) mod sint count" using assms(1) by simp
    then have "sint count * ((2 ^ 256 - 1) div sint count) \<le> 2 ^ 256 - 1"
      using dm by linarith
    then show ?thesis by (simp add: partSize_def Hash_Big_def maxSlot_uint)
  qed
  finally show ?thesis .
qed

lemma uint_BigToHash_part:
  assumes "1 \<le> sint count" "0 \<le> x" "x \<le> sint count"
  shows "uint (BigToHash (x * partSize count)) = x * partSize count"
proof -
  have p: "0 \<le> partSize count" using partSize_pos [OF assms(1)] by simp
  have nn: "0 \<le> x * partSize count" using assms(2) p by simp
  have "x * partSize count < 2 ^ 256" using partSize_mult_le [OF assms] by simp
  then have lt: "x * partSize count < 2 ^ LENGTH(256)" by simp
  have ab: "\<bar>x * partSize count\<bar> = x * partSize count" using nn by simp
  show ?thesis unfolding BigToHash_def ab
    by (rule word_of_int_inverse [OF refl nn lt])
qed

lemma PartitionKeyspace_valid:
  assumes "0 \<le> sint i" "sint i < sint count"
  shows "PartitionKeyspace i count =
     Inr (BigToHash (sint i * partSize count),
          if sint i < sint count - 1 then BigToHash ((sint i + 1) * partSize count) else maxSlot)"
proof -
  have c: "0 \<le> sint count" using assms by simp
  show ?thesis
    using assms sint_dec [OF c] sint_inc [OF assms]
    by (simp add: PartitionKeyspace_def partSize_def Let_def)
qed

lemma part_first:
  assumes "1 \<le> sint count"
  shows "\<exists>e. PartitionKeyspace 0 count = Inr (0, e)"
  using assms PartitionKeyspace_valid [of 0 count] by (simp add: BigToHash_def)

lemma part_last:
  assumes "1 \<le> sint count"
  shows "\<exists>s. PartitionKeyspace (count - 1) count = Inr (s, maxSlot)"
proof -
  have "sint (count - 1) = sint count - 1" using assms sint_dec [of count] by simp
  then show ?thesis using assms PartitionKeyspace_valid [of "count - 1" count] by simp
qed

lemma part_adjacent:
  assumes "0 \<le> sint i" "sint i < sint count - 1"
  shows "\<exists>s e e'. PartitionKeyspace i count = Inr (s, e) \<and>
                   PartitionKeyspace (i + 1) count = Inr (e, e')"
proof -
  have lt: "sint i < sint count" using assms by simp
  have inc: "sint (i + 1) = sint i + 1" using sint_inc [OF assms(1) lt] .
  have a: "PartitionKeyspace i count =
      Inr (BigToHash (sint i * partSize count), BigToHash ((sint i + 1) * partSize count))"
    using PartitionKeyspace_valid [OF assms(1) lt] assms(2) by simp
  have b: "\<exists>e'. PartitionKeyspace (i + 1) count =
      Inr (BigToHash ((sint i + 1) * partSize count), e')"
    using PartitionKeyspace_valid [of "i + 1" count] assms inc by simp
  show ?thesis using a b by auto
qed

lemma part_cover:
  assumes "1 \<le> sint count"
  shows "\<exists>i s e. 0 \<le> sint i \<and> sint i < sint count \<and>
           PartitionKeyspace i count = Inr (s, e) \<and> s \<le> k \<and> k \<le> e"
proof -
  define p where "p = partSize count"
  define q where "q = uint k div p"
  have p1: "1 \<le> p" using partSize_pos [OF assms] by (simp add: p_def)
  have q0: "0 \<le> q" using p1 by (simp add: q_def pos_imp_zdiv_nonneg_iff)
  have dm: "uint k = q * p + uint k mod p" by (simp add: q_def)
  have m0: "0 \<le> uint k mod p" and m1: "uint k mod p < p" using p1 by simp_all
  have lo: "q * p \<le> uint k" using dm m0 by linarith
  have qp: "(q + 1) * p = q * p + p" by (simp add: algebra_simps)
  have hi: "uint k < (q + 1) * p" using dm m1 qp by linarith
  show ?thesis
  proof (cases "q < sint count - 1")
    case True
    define i :: goint where "i = word_of_int q"
    have qb: "q < 2 ^ 63" using True goint_sint_lt [of count] by simp
    have si: "sint i = q" unfolding i_def using q0 qb
      by (simp add: sint_sbintrunc' signed_take_bit_int_eq_self)
    have i0: "0 \<le> sint i" and ilt: "sint i < sint count" using si q0 True by simp_all
    have pk: "PartitionKeyspace i count =
        Inr (BigToHash (q * p), BigToHash ((q + 1) * p))"
      using PartitionKeyspace_valid [OF i0 ilt] True si by (simp add: p_def)
    have us: "uint (BigToHash (q * p)) = q * p"
      using uint_BigToHash_part [OF assms q0, of ] True by (simp add: p_def)
    have ue: "uint (BigToHash ((q + 1) * p)) = (q + 1) * p"
      using uint_BigToHash_part [OF assms, of "q + 1"] q0 True by (simp add: p_def)
    have "BigToHash (q * p) \<le> k" "k \<le> BigToHash ((q + 1) * p)"
      using lo hi by (simp_all only: word_le_def us ue)
    then show ?thesis using pk i0 ilt by blast
  next
    case False
    define i :: goint where "i = count - 1"
    have si: "sint i = sint count - 1" unfolding i_def using assms sint_dec [of count] by simp
    have i0: "0 \<le> sint i" and ilt: "sint i < sint count" using si assms by simp_all
    have pk: "PartitionKeyspace i count = Inr (BigToHash ((sint count - 1) * p), maxSlot)"
      using PartitionKeyspace_valid [OF i0 ilt] si by (simp add: p_def)
    have us: "uint (BigToHash ((sint count - 1) * p)) = (sint count - 1) * p"
      using uint_BigToHash_part [OF assms, of "sint count - 1"] assms by (simp add: p_def)
    have "(sint count - 1) * p \<le> q * p" using False p1 by (simp add: mult_right_mono)
    then have "(sint count - 1) * p \<le> uint k" using lo by simp
    then have "BigToHash ((sint count - 1) * p) \<le> k" by (simp only: word_le_def us)
    then show ?thesis using pk i0 ilt maxSlot_top [of k] by blast
  qed
qed

lemma part_overlap:
  assumes "0 \<le> sint i" "sint i < sint j" "sint j < sint count"
    and "PartitionKeyspace i count = Inr (s, e)" "PartitionKeyspace j count = Inr (s', e')"
    and "s \<le> k" "k \<le> e" "s' \<le> k" "k \<le> e'"
  shows "j = i + 1 \<and> k = e \<and> k = s'"
proof -
  define p where "p = partSize count"
  have c1: "1 \<le> sint count" using assms(1-3) by simp
  have p1: "1 \<le> p" using partSize_pos [OF c1] by (simp add: p_def)
  have ilt: "sint i < sint count" and j0: "0 \<le> sint j" and il: "sint i < sint count - 1"
    using assms(1-3) by simp_all
  have e: "e = BigToHash ((sint i + 1) * p)"
    using PartitionKeyspace_valid [OF assms(1) ilt] assms(4) il by (simp add: p_def)
  have s': "s' = BigToHash (sint j * p)"
    using PartitionKeyspace_valid [OF j0 assms(3)] assms(5) by (simp add: p_def)
  have ue: "uint e = (sint i + 1) * p"
    unfolding e using uint_BigToHash_part [OF c1, of "sint i + 1"] assms(1) il by (simp add: p_def)
  have us: "uint s' = sint j * p"
    unfolding s' using uint_BigToHash_part [OF c1 j0] assms(3) by (simp add: p_def)
  have "uint s' \<le> uint k" "uint k \<le> uint e"
    using assms(7,8) by (simp_all add: word_le_def)
  then have le: "sint j * p \<le> (sint i + 1) * p" and k1: "sint j * p \<le> uint k"
    and k2: "uint k \<le> (sint i + 1) * p" using ue us by simp_all
  have "sint j \<le> sint i + 1" using le p1 by (simp add: mult_le_cancel_right)
  then have sj: "sint j = sint i + 1" using assms(2) by simp
  have "sint j = sint (i + 1)" using sj sint_inc [OF assms(1) ilt] by simp
  then have j: "j = i + 1" by (rule signed_word_eqI)
  have "uint k = uint e" using k1 k2 sj ue by simp
  then have ke: "k = e" by (rule word_uint_eqI)
  have "uint k = uint s'" using k1 k2 sj us by simp
  then have ks: "k = s'" by (rule word_uint_eqI)
  show ?thesis using j ke ks by simp
qed

text \<open>
  C7: \<^verbatim>\<open>PartitionKeyspace(i, count)\<close> panics exactly when \<^verbatim>\<open>i\<close> is negative, \<^verbatim>\<open>count\<close> is
  negative or \<^verbatim>\<open>i \<ge> count\<close>, and returns a range whenever \<^verbatim>\<open>0 \<le> i < count\<close>.
\<close>

theorem C7_PartitionKeyspace_panics:
  "(sint i < 0 \<or> sint count < 0 \<or> sint count \<le> sint i
      \<longrightarrow> (\<exists>m. PartitionKeyspace i count = Inl m)) \<and>
   (0 \<le> sint i \<and> sint i < sint count
      \<longrightarrow> (\<exists>r. PartitionKeyspace i count = Inr r))"
proof (intro conjI impI)
  assume bad: "sint i < 0 \<or> sint count < 0 \<or> sint count \<le> sint i"
  show "\<exists>m. PartitionKeyspace i count = Inl m"
  proof (cases "sint i < 0 \<or> sint count < 0")
    case True
    then show ?thesis by (auto simp: PartitionKeyspace_def)
  next
    case False
    then have c: "0 \<le> sint count" and ge: "sint count \<le> sint i" using bad by auto
    have "sint (count - 1) < sint i" using sint_dec [OF c] ge by simp
    then show ?thesis using False by (simp add: PartitionKeyspace_def)
  qed
next
  assume "0 \<le> sint i \<and> sint i < sint count"
  then show "\<exists>r. PartitionKeyspace i count = Inr r"
    using PartitionKeyspace_valid [of i count] by simp
qed

theorem C7_PartitionKeyspace_panics_witness:
  "(\<exists>m. PartitionKeyspace 1 1 = Inl m) \<and> (\<exists>m. PartitionKeyspace (- 1) 1 = Inl m) \<and>
   (\<exists>m. PartitionKeyspace 0 (- 1) = Inl m) \<and> (\<exists>r. PartitionKeyspace 1 3 = Inr r)"
  using C7_PartitionKeyspace_panics [of 1 1] C7_PartitionKeyspace_panics [of "- 1" 1]
    C7_PartitionKeyspace_panics [of 0 "- 1"] C7_PartitionKeyspace_panics [of 1 3]
  by simp

text \<open>
  C1: for every \<^verbatim>\<open>count \<ge> 1\<close> the inclusive ranges of \<^verbatim>\<open>PartitionKeyspace(i, count)\<close>,
  \<^verbatim>\<open>0 \<le> i < count\<close>, cover the key space without gaps: partition 0 starts at the all-zero
  key, the last partition ends at \<^verbatim>\<open>maxSlot\<close> (which is the greatest key), the end of
  partition \<^verbatim>\<open>i\<close> is the start of partition \<^verbatim>\<open>i+1\<close>, every key lies in some partition,
  and a key shared by two distinct partitions is the boundary key of two adjacent ones.
\<close>

theorem C1_PartitionKeyspace_covers:
  assumes "1 \<le> sint count"
  shows "(\<exists>e. PartitionKeyspace 0 count = Inr (0, e)) \<and>
         (\<exists>s. PartitionKeyspace (count - 1) count = Inr (s, maxSlot)) \<and>
         (\<forall>k. k \<le> maxSlot) \<and>
         (\<forall>i. 0 \<le> sint i \<and> sint i < sint count - 1 \<longrightarrow>
            (\<exists>s e e'. PartitionKeyspace i count = Inr (s, e) \<and>
                       PartitionKeyspace (i + 1) count = Inr (e, e'))) \<and>
         (\<forall>k. \<exists>i s e. 0 \<le> sint i \<and> sint i < sint count \<and>
            PartitionKeyspace i count = Inr (s, e) \<and> s \<le> k \<and> k \<le> e) \<and>
         (\<forall>i j s e s' e' k.
            0 \<le> sint i \<and> sint i < sint j \<and> sint j < sint count \<and>
            PartitionKeyspace i count = Inr (s, e) \<and>
            PartitionKeyspace j count = Inr (s', e') \<and>
            s \<le> k \<and> k \<le> e \<and> s' \<le> k \<and> k \<le> e'
            \<longrightarrow> j = i + 1 \<and> k = e \<and> k = s')"
proof (intro conjI allI impI)
  show "\<exists>e. PartitionKeyspace 0 count = Inr (0, e)" by (rule part_first [OF assms])
  show "\<exists>s. PartitionKeyspace (count - 1) count = Inr (s, maxSlot)"
    by (rule part_last [OF assms])
  show "k \<le> maxSlot" for k by (rule maxSlot_top)
  show "\<exists>s e e'. PartitionKeyspace i count = Inr (s, e) \<and>
          PartitionKeyspace (i + 1) count = Inr (e, e')"
    if "0 \<le> sint i \<and> sint i < sint count - 1" for i
    using that part_adjacent [of i count] by simp
  show "\<exists>i s e. 0 \<le> sint i \<and> sint i < sint count \<and>
          PartitionKeyspace i count = Inr (s, e) \<and> s \<le> k \<and> k \<le> e" for k
    by (rule part_cover [OF assms])
  fix i j s e s' e' k
  assume h: "0 \<le> sint i \<and> sint i < sint j \<and> sint j < sint count \<and>
            PartitionKeyspace i count = Inr (s, e) \<and>
            PartitionKeyspace j count = Inr (s', e') \<and>
            s \<le> k \<and> k \<le> e \<and> s' \<le> k \<and> k \<le> e'"
  then have r: "j = i + 1 \<and> k = e \<and> k = s'"
    using part_overlap [of i j count s e s' e' k] by blast
  from r show "j = i + 1" by blast
  from r show "k = e" by blast
  from r show "k = s'" by blast
qed

theorem C1_PartitionKeyspace_covers_witness:
  "1 \<le> sint (3 :: goint) \<and>
   (\<exists>e. PartitionKeyspace 0 3 = Inr (0, e)) \<and>
   (\<exists>s. PartitionKeyspace 2 3 = Inr (s, maxSlot)) \<and>
   (\<exists>s e e'. PartitionKeyspace 1 3 = Inr (s, e) \<and> PartitionKeyspace 2 3 = Inr (e, e')) \<and>
   (\<exists>i s e. 0 \<le> sint i \<and> sint i < sint (3 :: goint) \<and>
       PartitionKeyspace i 3 = Inr (s, e) \<and> s \<le> 7 \<and> 7 \<le> e)"
proof -
  have h: "1 \<le> sint (3 :: goint)" by simp
  note t = C1_PartitionKeyspace_covers [OF h]
  have a: "\<exists>e. PartitionKeyspace 0 3 = Inr (0, e)" using t by blast
  have b: "\<exists>s. PartitionKeyspace 2 3 = Inr (s, maxSlot)" using t by simp
  have "0 \<le> sint (1 :: goint) \<and> sint (1 :: goint) < sint (3 :: goint) - 1" by simp
  then have "\<exists>s e e'. PartitionKeyspace 1 3 = Inr (s, e) \<and>
      PartitionKeyspace (1 + 1) 3 = Inr (e, e')" using t by blast
  then have c: "\<exists>s e e'. PartitionKeyspace 1 3 = Inr (s, e) \<and>
      PartitionKeyspace 2 3 = Inr (e, e')" by simp
  have d: "\<exists>i s e. 0 \<le> sint i \<and> sint i < sint (3 :: goint) \<and>
       PartitionKeyspace i 3 = Inr (s, e) \<and> s \<le> 7 \<and> 7 \<le> e" using t by blast
  show ?thesis using h a b c d by blast
qed

end
